theory Spec2Isabelle
  imports Complex_Main
begin

section \<open>Values of the program\<close>

text \<open>
  The configuration is parsed JSON, so any field can hold any JSON value. A Python
  dict is an association list read with \<open>map_of\<close>: where a key occurs twice the
  first binding is the dict's. Python's \<open>float\<close> and \<open>int\<close> numbers are both
  modelled as exact rationals: the rounding of IEEE doubles is not part of this model,
  and every statement about sizes and offsets below is one of exact arithmetic.
\<close>

datatype json =
    JNull
  | JBool bool
  | JNum rat
  | JStr string
  | JArr "json list"
  | JObj "(string \<times> json) list"

text \<open>
  Exceptions of class \<open>Exception\<close>. The first four are raised by the interpreter
  itself, \<open>LibraryError\<close> stands for whatever PIL, ReportLab or \<open>os\<close> raise.
\<close>

datatype exn =
    KeyError string
  | TypeError
  | AttributeError
  | ZeroDivisionError
  | LibraryError string

text \<open>Python truth value of a parsed JSON value (\<open>if v:\<close>).\<close>

fun truthy :: "json \<Rightarrow> bool" where
  "truthy JNull = False"
| "truthy (JBool b) = b"
| "truthy (JNum n) = (n \<noteq> 0)"
| "truthy (JStr s) = (s \<noteq> [])"
| "truthy (JArr xs) = (xs \<noteq> [])"
| "truthy (JObj kvs) = (kvs \<noteq> [])"

text \<open>\<open>v[k]\<close> with a string key: only a dict can be subscripted with one.\<close>

fun subscript :: "json \<Rightarrow> string \<Rightarrow> exn + json" where
  "subscript (JObj kvs) k =
     (case map_of kvs k of None \<Rightarrow> Inl (KeyError k) | Some v \<Rightarrow> Inr v)"
| "subscript v k = Inl TypeError"

text \<open>\<open>v.get(k, d)\<close>: only a dict has the method.\<close>

fun py_get :: "json \<Rightarrow> string \<Rightarrow> json \<Rightarrow> exn + json" where
  "py_get (JObj kvs) k d = Inr (case map_of kvs k of None \<Rightarrow> d | Some v \<Rightarrow> v)"
| "py_get v k d = Inl AttributeError"

text \<open>\<open>len(v)\<close> and the items a \<open>for\<close> loop over \<open>v\<close> visits.\<close>

fun py_len :: "json \<Rightarrow> exn + nat" where
  "py_len (JArr xs) = Inr (length xs)"
| "py_len (JStr s) = Inr (length s)"
| "py_len (JObj kvs) = Inr (length (remdups (map fst kvs)))"
| "py_len v = Inl TypeError"

fun py_iter :: "json \<Rightarrow> exn + json list" where
  "py_iter (JArr xs) = Inr xs"
| "py_iter (JStr s) = Inr (map (\<lambda>ch. JStr [ch]) s)"
| "py_iter (JObj kvs) = Inr (map JStr (remdups (map fst kvs)))"
| "py_iter v = Inl TypeError"

text \<open>\<open>s.startswith(p)\<close> on strings.\<close>

definition startswith :: "string \<Rightarrow> string \<Rightarrow> bool" where
  "startswith s p = (take (length p) s = p)"

text \<open>\<open>a / b\<close>: true division raises on a zero divisor.\<close>

definition truediv :: "rat \<Rightarrow> rat \<Rightarrow> exn + rat" where
  "truediv a b = (if b = 0 then Inl ZeroDivisionError else Inr (a / b))"

section \<open>Page formats\<close>

definition PDF_FORMATS :: "(string \<times> rat \<times> rat) list" where
  "PDF_FORMATS =
    [(''5.5x8.5'', (11 / 2, 17 / 2)),
     (''7x7'', (7, 7)),
     (''8x8'', (8, 8)),
     (''6x9'', (6, 9)),
     (''8x10'', (8, 10)),
     (''5x8'', (5, 8)),
     (''8.5x11'', (17 / 2, 11)),
     (''8.5x8.5'', (17 / 2, 17 / 2)),
     (''6.14x9.21'', (307 / 50, 921 / 100)),
     (''8.25x6'', (33 / 4, 6))]"

text \<open>
  \<open>format_name in PDF_FORMATS\<close> hashes the value first: a list or a dict is
  unhashable. Every other non-string value is hashable and equal to no key.
\<close>

fun get_page_size :: "json \<Rightarrow> exn + rat \<times> rat" where
  "get_page_size (JStr format_name) =
     (case map_of PDF_FORMATS format_name of
        Some (width_in, height_in) \<Rightarrow> Inr (width_in * 72, height_in * 72)
      | None \<Rightarrow> Inr (8 * 72, 8 * 72))"
| "get_page_size (JArr xs) = Inl TypeError"
| "get_page_size (JObj kvs) = Inl TypeError"
| "get_page_size v = Inr (8 * 72, 8 * 72)"

section \<open>Images, canvas and the outside world\<close>

text \<open>A PIL image as far as the program looks at it: where it came from, mode, size.\<close>

record pil_image =
  im_source :: string
  im_mode :: string
  im_size :: "int \<times> int"

datatype image_reader = ImageReader pil_image

fun getSize :: "image_reader \<Rightarrow> int \<times> int" where
  "getSize (ImageReader img) = im_size img"

text \<open>
  One \<open>drawImage\<close> call: the image, its lower left corner and its drawn size
  (\<open>preserveAspectRatio=False\<close> and \<open>mask='auto'\<close> are the same in every call).
\<close>

record draw_op =
  op_image :: image_reader
  op_x :: rat
  op_y :: rat
  op_width :: rat
  op_height :: rat

text \<open>
  The canvas: the operations on the page in progress and the pages that
  \<open>showPage\<close> has closed, in order.
\<close>

record canvas =
  cv_filename :: json
  cv_pagesize :: "rat \<times> rat"
  cv_current :: "draw_op list"
  cv_pages :: "draw_op list list"

definition Canvas :: "json \<Rightarrow> rat \<times> rat \<Rightarrow> canvas" where
  "Canvas output_path pagesize =
     \<lparr>cv_filename = output_path, cv_pagesize = pagesize, cv_current = [], cv_pages = []\<rparr>"

definition showPage :: "canvas \<Rightarrow> canvas" where
  "showPage c = c\<lparr>cv_pages := cv_pages c @ [cv_current c], cv_current := []\<rparr>"

text \<open>
  What the program cannot decide by itself: the file system, the image decoder, the
  PDF writer, and the text of an exception. Each call that can raise returns the
  exception as a value. \<open>Canvas\<close>, \<open>showPage\<close>, \<open>ImageReader\<close> and
  \<open>getSize\<close> only build up or read memory and are taken not to raise; a
  \<open>drawImage\<close> that raises is taken to leave the page as it was. Only exceptions of
  class \<open>Exception\<close> are modelled, which is what both \<open>except\<close> clauses catch.
\<close>

record world =
  os_path_exists :: "string \<Rightarrow> bool"
  Image_open :: "string \<Rightarrow> exn + pil_image"
  Image_convert :: "pil_image \<Rightarrow> string \<Rightarrow> exn + pil_image"
  canvas_drawImage :: "draw_op \<Rightarrow> exn option"
  canvas_save :: "canvas \<Rightarrow> exn option"
  os_path_getsize :: "json \<Rightarrow> exn + nat"
  exn_message :: "exn \<Rightarrow> string"

text \<open>The lines written to stderr, one constructor for each \<open>print\<close> of the source.\<close>

datatype msg =
    SkippingObjectStorage string
  | ImageNotFound string
  | ErrorLoadingImage json exn
  | ErrorAddingImage exn
  | GeneratingPDF json
  | FormatLine json rat rat
  | PagesLine nat
  | AddingCover json
  | CoverAdded
  | SkippingPage nat
  | AddingPage nat nat json
  | PageAdded nat
  | PDFGenerated json nat
  | ErrorGeneratingPDF exn

section \<open>Loading an image\<close>

text \<open>The body of the \<open>try\<close> of \<open>load_image_from_path\<close>.\<close>

fun load_image_try :: "world \<Rightarrow> json \<Rightarrow> exn + msg list \<times> image_reader option" where
  "load_image_try w (JStr image_path) =
     (if startswith image_path ''/objects/'' \<or> startswith image_path ''objects/''
      then Inr ([SkippingObjectStorage image_path], None)
      else if \<not> os_path_exists w image_path
      then Inr ([ImageNotFound image_path], None)
      else
        (case Image_open w image_path of
           Inl e \<Rightarrow> Inl e
         | Inr img \<Rightarrow>
             if im_mode img \<noteq> ''RGB'' \<and> im_mode img \<noteq> ''L''
             then (case Image_convert w img ''RGB'' of
                     Inl e \<Rightarrow> Inl e
                   | Inr img' \<Rightarrow> Inr ([], Some (ImageReader img')))
             else Inr ([], Some (ImageReader img))))"
| "load_image_try w image_path = Inl AttributeError"

definition load_image_from_path :: "world \<Rightarrow> json \<Rightarrow> msg list \<times> image_reader option" where
  "load_image_from_path w image_path =
     (case load_image_try w image_path of
        Inl e \<Rightarrow> ([ErrorLoadingImage image_path e], None)
      | Inr r \<Rightarrow> r)"

section \<open>Placing an image on the page\<close>

text \<open>The body of the \<open>try\<close> of \<open>add_image_to_page\<close>.\<close>

definition add_image_try :: "world \<Rightarrow> canvas \<Rightarrow> image_reader \<Rightarrow> rat \<Rightarrow> rat \<Rightarrow> exn + canvas" where
  "add_image_try w c image_reader page_width page_height =
     (case getSize image_reader of (img_width, img_height) \<Rightarrow>
      (case truediv page_width (of_int img_width) of
         Inl e \<Rightarrow> Inl e
       | Inr scale_x \<Rightarrow>
      (case truediv page_height (of_int img_height) of
         Inl e \<Rightarrow> Inl e
       | Inr scale_y \<Rightarrow>
          (let scale = max scale_x scale_y;
               scaled_width = of_int img_width * scale;
               scaled_height = of_int img_height * scale;
               x = (page_width - scaled_width) / 2;
               y = (page_height - scaled_height) / 2;
               call = \<lparr>op_image = image_reader, op_x = x, op_y = y,
                       op_width = scaled_width, op_height = scaled_height\<rparr>
           in (case canvas_drawImage w call of
                 Some e \<Rightarrow> Inl e
               | None \<Rightarrow> Inr (c\<lparr>cv_current := cv_current c @ [call]\<rparr>))))))"

definition add_image_to_page ::
  "world \<Rightarrow> canvas \<Rightarrow> image_reader option \<Rightarrow> rat \<Rightarrow> rat \<Rightarrow> msg list \<times> canvas" where
  "add_image_to_page w c image_reader page_width page_height =
     (case image_reader of
        None \<Rightarrow> ([], c)
      | Some r \<Rightarrow>
          (case add_image_try w c r page_width page_height of
             Inl e \<Rightarrow> ([ErrorAddingImage e], c)
           | Inr c' \<Rightarrow> ([], c')))"

section \<open>Generating the document\<close>

text \<open>The cover, lines 139 to 146 of \<open>generate_pdf\<close>.\<close>

definition add_cover ::
  "world \<Rightarrow> rat \<Rightarrow> rat \<Rightarrow> json \<Rightarrow> msg list \<Rightarrow> canvas \<Rightarrow> msg list \<times> canvas" where
  "add_cover w page_width page_height cover_image trace c =
     (if truthy cover_image then
        (case load_image_from_path w cover_image of
           (l1, None) \<Rightarrow> (trace @ [AddingCover cover_image] @ l1, c)
         | (l1, Some img_reader) \<Rightarrow>
             (case add_image_to_page w c (Some img_reader) page_width page_height of
                (l2, c') \<Rightarrow>
                  (trace @ [AddingCover cover_image] @ l1 @ l2 @ [CoverAdded], showPage c')))
      else (trace, c))"

text \<open>
  The loop over the story pages, lines 148 to 160: \<open>n\<close> is \<open>len(pages)\<close> and
  \<open>i\<close> the index \<open>enumerate\<close> gives the first remaining entry. An exception of
  \<open>page.get\<close> leaves the loop.
\<close>

fun add_story_pages ::
  "world \<Rightarrow> rat \<Rightarrow> rat \<Rightarrow> nat \<Rightarrow> nat \<Rightarrow> json list \<Rightarrow> msg list \<Rightarrow> canvas
     \<Rightarrow> msg list \<times> canvas \<times> exn option" where
  "add_story_pages w page_width page_height n i [] trace c = (trace, c, None)"
| "add_story_pages w page_width page_height n i (page # rest) trace c =
     (case py_get page ''image_path'' JNull of
        Inl e \<Rightarrow> (trace, c, Some e)
      | Inr image_path \<Rightarrow>
          if \<not> truthy image_path
          then add_story_pages w page_width page_height n (i + 1) rest
                 (trace @ [SkippingPage (i + 1)]) c
          else
            (case load_image_from_path w image_path of
               (l1, None) \<Rightarrow>
                 add_story_pages w page_width page_height n (i + 1) rest
                   (trace @ [AddingPage (i + 1) n image_path] @ l1) c
             | (l1, Some img_reader) \<Rightarrow>
                 (case add_image_to_page w c (Some img_reader) page_width page_height of
                    (l2, c') \<Rightarrow>
                      add_story_pages w page_width page_height n (i + 1) rest
                        (trace @ [AddingPage (i + 1) n image_path] @ l1 @ l2 @ [PageAdded (i + 1)])
                        (showPage c'))))"

text \<open>
  What a run leaves behind: the returned dict, the lines on stderr, and the
  document that \<open>save\<close> wrote, if it got that far.
\<close>

record outcome =
  out_result :: json
  out_stderr :: "msg list"
  out_saved :: "canvas option"

text \<open>The \<open>except\<close> branch of \<open>generate_pdf\<close>.\<close>

definition on_exception :: "world \<Rightarrow> msg list \<Rightarrow> canvas option \<Rightarrow> exn \<Rightarrow> outcome" where
  "on_exception w trace saved e =
     \<lparr>out_result = JObj [(''success'', JBool False), (''error'', JStr (exn_message w e))],
      out_stderr = trace @ [ErrorGeneratingPDF e],
      out_saved = saved\<rparr>"

text \<open>Lines 124 to 130: reading the configuration and the page size.\<close>

definition read_config :: "json \<Rightarrow> exn + json \<times> json \<times> json \<times> json \<times> rat \<times> rat" where
  "read_config config =
     (case subscript config ''output_path'' of
        Inl e \<Rightarrow> Inl e
      | Inr output_path \<Rightarrow>
     (case py_get config ''format'' (JStr ''8x8'') of
        Inl e \<Rightarrow> Inl e
      | Inr pdf_format \<Rightarrow>
     (case py_get config ''cover_image'' JNull of
        Inl e \<Rightarrow> Inl e
      | Inr cover_image \<Rightarrow>
     (case py_get config ''pages'' (JArr []) of
        Inl e \<Rightarrow> Inl e
      | Inr pages \<Rightarrow>
     (case get_page_size pdf_format of
        Inl e \<Rightarrow> Inl e
      | Inr (page_width, page_height) \<Rightarrow>
          Inr (output_path, pdf_format, cover_image, pages, page_width, page_height))))))"

text \<open>Lines 162 to 176: saving, measuring the file and building the success dict.\<close>

definition save_and_report ::
  "world \<Rightarrow> json \<Rightarrow> json \<Rightarrow> nat \<Rightarrow> msg list \<Rightarrow> canvas \<Rightarrow> outcome" where
  "save_and_report w output_path cover_image n trace c =
     (case canvas_save w c of
        Some e \<Rightarrow> on_exception w trace None e
      | None \<Rightarrow>
          (case os_path_getsize w output_path of
             Inl e \<Rightarrow> on_exception w trace (Some c) e
           | Inr file_size \<Rightarrow>
               \<lparr>out_result = JObj
                  [(''success'', JBool True),
                   (''output_path'', output_path),
                   (''file_size'', JNum (of_nat file_size)),
                   (''page_count'', JNum (of_nat (n + (if truthy cover_image then 1 else 0))))],
                out_stderr = trace @ [PDFGenerated output_path file_size],
                out_saved = Some c\<rparr>))"

definition generate_pdf :: "world \<Rightarrow> json \<Rightarrow> outcome" where
  "generate_pdf w config =
     (case read_config config of
        Inl e \<Rightarrow> on_exception w [] None e
      | Inr (output_path, pdf_format, cover_image, pages, page_width, page_height) \<Rightarrow>
          (let trace0 = [GeneratingPDF output_path,
                       FormatLine pdf_format (page_width / 72) (page_height / 72)]
           in (case py_len pages of
                 Inl e \<Rightarrow> on_exception w trace0 None e
               | Inr n \<Rightarrow>
                   (case add_cover w page_width page_height cover_image
                           (trace0 @ [PagesLine n])
                           (Canvas output_path (page_width, page_height)) of
                      (trace1, c1) \<Rightarrow>
                        (case py_iter pages of
                           Inl e \<Rightarrow> on_exception w trace1 None e
                         | Inr entries \<Rightarrow>
                             (case add_story_pages w page_width page_height n 0 entries trace1 c1 of
                                (trace2, c2, Some e) \<Rightarrow> on_exception w trace2 None e
                              | (trace2, c2, None) \<Rightarrow>
                                  save_and_report w output_path cover_image n trace2 c2))))))"

text \<open>
  The script, from the parsed configuration on: the printed result and the exit
  status. An uncaught \<open>KeyError\<close> of \<open>result['success']\<close> would end the process
  with status 1.
\<close>

definition main :: "world \<Rightarrow> json \<Rightarrow> json \<times> nat" where
  "main w config =
     (let result = out_result (generate_pdf w config)
      in (result,
          (case subscript result ''success'' of
             Inl e \<Rightarrow> 1
           | Inr success \<Rightarrow> if truthy success then 0 else 1)))"

section \<open>The document the specification describes\<close>

text \<open>
  The page that one image makes when it is placed on an empty page: its
  \<open>drawImage\<close> call, or nothing when placing it raised.
\<close>

definition drawn_page :: "world \<Rightarrow> rat \<Rightarrow> rat \<Rightarrow> image_reader \<Rightarrow> draw_op list" where
  "drawn_page w page_width page_height r =
     cv_current (snd (add_image_to_page w (Canvas JNull (page_width, page_height)) (Some r)
                        page_width page_height))"

text \<open>
  Following the specification: an image source gives one page when it loads and none
  when it is skipped; a page entry gives the pages of its image path, none when it
  has no image path; the document is the cover's page followed by the pages of the
  entries, in the order of the list.
\<close>

definition image_pages :: "world \<Rightarrow> rat \<Rightarrow> rat \<Rightarrow> json \<Rightarrow> draw_op list list" where
  "image_pages w page_width page_height source =
     (case snd (load_image_from_path w source) of
        None \<Rightarrow> []
      | Some r \<Rightarrow> [drawn_page w page_width page_height r])"

definition entry_pages :: "world \<Rightarrow> rat \<Rightarrow> rat \<Rightarrow> json \<Rightarrow> draw_op list list" where
  "entry_pages w page_width page_height page =
     (case py_get page ''image_path'' JNull of
        Inl e \<Rightarrow> []
      | Inr image_path \<Rightarrow>
          if truthy image_path then image_pages w page_width page_height image_path else [])"

definition spec_document ::
  "world \<Rightarrow> rat \<Rightarrow> rat \<Rightarrow> json \<Rightarrow> json list \<Rightarrow> draw_op list list" where
  "spec_document w page_width page_height cover_image entries =
     (if truthy cover_image then image_pages w page_width page_height cover_image else [])
     @ concat (map (entry_pages w page_width page_height) entries)"

section \<open>A sample world and configuration\<close>

text \<open>
  Four files exist: a cover, a story image that needs conversion, an image of width
  zero and a file that cannot be decoded. Drawing, saving and measuring succeed.
\<close>

definition demo_world :: world where
  "demo_world =
     \<lparr>os_path_exists = (\<lambda>p. p = ''cover.png'' \<or> p = ''p1.png'' \<or> p = ''zero.png'' \<or> p = ''bad.png''),
      Image_open = (\<lambda>p.
        if p = ''cover.png'' then Inr \<lparr>im_source = p, im_mode = ''RGB'', im_size = (800, 600)\<rparr>
        else if p = ''p1.png'' then Inr \<lparr>im_source = p, im_mode = ''RGBA'', im_size = (200, 100)\<rparr>
        else if p = ''zero.png'' then Inr \<lparr>im_source = p, im_mode = ''L'', im_size = (0, 10)\<rparr>
        else Inl (LibraryError ''cannot identify image file'')),
      Image_convert = (\<lambda>img m. Inr (img\<lparr>im_mode := m\<rparr>)),
      canvas_drawImage = (\<lambda>call. None),
      canvas_save = (\<lambda>c. None),
      os_path_getsize = (\<lambda>p. Inr 1234),
      exn_message = (\<lambda>e. case e of KeyError k \<Rightarrow> [CHR 0x27] @ k @ [CHR 0x27]
                                  | LibraryError m \<Rightarrow> m
                                  | _ \<Rightarrow> ''error'')\<rparr>"

definition demo_config :: json where
  "demo_config =
     JObj [(''output_path'', JStr ''out.pdf''),
           (''format'', JStr ''6x9''),
           (''cover_image'', JStr ''cover.png''),
           (''pages'', JArr [JObj [(''image_path'', JStr ''p1.png'')],
                            JObj [(''image_path'', JStr ''/objects/a.png'')],
                            JObj [],
                            JObj [(''image_path'', JStr ''missing.png'')],
                            JObj [(''image_path'', JStr ''zero.png'')],
                            JObj [(''image_path'', JStr ''bad.png'')]])]"


definition demo_zero_reader :: image_reader where
  "demo_zero_reader = ImageReader \<lparr>im_source = ''zero.png'', im_mode = ''L'', im_size = (0, 10)\<rparr>"

definition demo_pages :: "json list" where
  "demo_pages = [JObj [(''image_path'', JStr ''p1.png'')],
                JObj [(''image_path'', JStr ''/objects/a.png'')],
                JObj [],
                JObj [(''image_path'', JStr ''missing.png'')],
                JObj [(''image_path'', JStr ''zero.png'')],
                JObj [(''image_path'', JStr ''bad.png'')]]"

definition demo_document :: "draw_op list list" where
  "demo_document =
              [[\<lparr>op_image = ImageReader \<lparr>im_source = ''cover.png'', im_mode = ''RGB'',
                                           im_size = (800, 600)\<rparr>,
                 op_x = - 216, op_y = 0, op_width = 864, op_height = 648\<rparr>],
               [\<lparr>op_image = ImageReader \<lparr>im_source = ''p1.png'', im_mode = ''RGB'',
                                           im_size = (200, 100)\<rparr>,
                 op_x = - 432, op_y = 0, op_width = 1296, op_height = 648\<rparr>],
               []]"

definition demo_small_config :: json where
  "demo_small_config =
     JObj [(''output_path'', JStr ''out.pdf''),
           (''pages'', JArr [JObj [(''image_path'', JStr ''missing.png'')]])]"

section \<open>Auxiliary facts\<close>



lemma add_image_try_zero:
  "fst (getSize r) = 0 \<or> snd (getSize r) = 0 \<Longrightarrow>
     add_image_try w c r pw ph = Inl ZeroDivisionError"
  by (auto simp: add_image_try_def truediv_def split: prod.splits sum.splits)

lemma add_image_to_page_effect:
  "snd (add_image_to_page w c (Some r) pw ph) =
     c\<lparr>cv_current := cv_current c @ drawn_page w pw ph r\<rparr>"
  by (auto simp: add_image_to_page_def drawn_page_def add_image_try_def truediv_def Let_def Canvas_def
           split: prod.splits sum.splits if_splits option.splits)

lemma add_cover_effect:
  assumes "cv_current c = []"
  shows "cv_pages (snd (add_cover w pw ph cover_image tr c)) =
           cv_pages c @ (if truthy cover_image then image_pages w pw ph cover_image else [])"
    and "cv_current (snd (add_cover w pw ph cover_image tr c)) = []"
proof -
  obtain l1 rd where ld: "load_image_from_path w cover_image = (l1, rd)"
    by (cases "load_image_from_path w cover_image")
  show "cv_pages (snd (add_cover w pw ph cover_image tr c)) =
           cv_pages c @ (if truthy cover_image then image_pages w pw ph cover_image else [])"
  proof (cases rd)
    case None
    with ld show ?thesis by (simp add: add_cover_def image_pages_def)
  next
    case (Some r)
    obtain l2 c2 where ad: "add_image_to_page w c (Some r) pw ph = (l2, c2)"
      by (cases "add_image_to_page w c (Some r) pw ph")
    have "c2 = c\<lparr>cv_current := cv_current c @ drawn_page w pw ph r\<rparr>"
      using add_image_to_page_effect [of w c r pw ph] ad by simp
    with ld Some ad assms show ?thesis
      by (simp add: add_cover_def image_pages_def showPage_def)
  qed
  show "cv_current (snd (add_cover w pw ph cover_image tr c)) = []"
    using assms ld
    by (cases rd) (auto simp: add_cover_def showPage_def split: prod.splits)
qed

lemma add_story_pages_effect:
  "add_story_pages w pw ph n i entries tr c = (tr', c', None) \<Longrightarrow> cv_current c = [] \<Longrightarrow>
     cv_pages c' = cv_pages c @ concat (map (entry_pages w pw ph) entries) \<and>
     cv_current c' = []"
proof (induction entries arbitrary: i tr c)
  case Nil
  then show ?case by simp
next
  case (Cons page rest)
  show ?case
  proof (cases "py_get page ''image_path'' JNull")
    case (Inl e)
    with Cons.prems show ?thesis by simp
  next
    case (Inr image_path)
    show ?thesis
    proof (cases "truthy image_path")
      case False
      with Inr Cons.prems have
        "add_story_pages w pw ph n (i + 1) rest (tr @ [SkippingPage (i + 1)]) c = (tr', c', None)"
        by simp
      moreover have "entry_pages w pw ph page = []"
        using Inr False by (simp add: entry_pages_def)
      ultimately show ?thesis
        using Cons.IH Cons.prems(2) by simp
    next
      case True
      obtain l1 rd where ld: "load_image_from_path w image_path = (l1, rd)"
        by (cases "load_image_from_path w image_path")
      show ?thesis
      proof (cases rd)
        case None
        with Inr True ld Cons.prems have
          "add_story_pages w pw ph n (i + 1) rest
             (tr @ [AddingPage (i + 1) n image_path] @ l1) c = (tr', c', None)"
          by simp
        moreover have "entry_pages w pw ph page = []"
          using Inr True ld None by (simp add: entry_pages_def image_pages_def)
        ultimately show ?thesis
          using Cons.IH Cons.prems(2) by simp
      next
        case (Some r)
        obtain l2 c2 where ad: "add_image_to_page w c (Some r) pw ph = (l2, c2)"
          by (cases "add_image_to_page w c (Some r) pw ph")
        have c2: "c2 = c\<lparr>cv_current := cv_current c @ drawn_page w pw ph r\<rparr>"
          using add_image_to_page_effect [of w c r pw ph] ad by simp
        from Inr True ld Some ad Cons.prems have
          "add_story_pages w pw ph n (i + 1) rest
             (tr @ [AddingPage (i + 1) n image_path] @ l1 @ l2 @ [PageAdded (i + 1)])
             (showPage c2) = (tr', c', None)"
          by simp
        moreover have "cv_current (showPage c2) = []"
          by (simp add: showPage_def)
        ultimately have
          "cv_pages c' = cv_pages (showPage c2) @ concat (map (entry_pages w pw ph) rest) \<and>
           cv_current c' = []"
          by (rule Cons.IH)
        moreover have "entry_pages w pw ph page = [drawn_page w pw ph r]"
          using Inr True ld Some by (simp add: entry_pages_def image_pages_def)
        ultimately show ?thesis
          using c2 Cons.prems(2) by (simp add: showPage_def)
      qed
    qed
  qed
qed

lemma read_config_Inr:
  "read_config config = Inr (output_path, pdf_format, cover_image, pages, pw, ph) \<Longrightarrow>
     subscript config ''output_path'' = Inr output_path \<and>
     py_get config ''format'' (JStr ''8x8'') = Inr pdf_format \<and>
     py_get config ''cover_image'' JNull = Inr cover_image \<and>
     py_get config ''pages'' (JArr []) = Inr pages \<and>
     get_page_size pdf_format = Inr (pw, ph)"
  by (auto simp: read_config_def split: sum.splits prod.splits)

lemma generate_pdf_cases:
  "(\<exists>output_path pdf_format cover_image pages pw ph n entries tr1 c1 tr c file_size.
      read_config config = Inr (output_path, pdf_format, cover_image, pages, pw, ph) \<and>
      py_len pages = Inr n \<and> py_iter pages = Inr entries \<and>
      add_cover w pw ph cover_image
         [GeneratingPDF output_path, FormatLine pdf_format (pw / 72) (ph / 72), PagesLine n]
         (Canvas output_path (pw, ph)) = (tr1, c1) \<and>
      add_story_pages w pw ph n 0 entries tr1 c1 = (tr, c, None) \<and>
      canvas_save w c = None \<and> os_path_getsize w output_path = Inr file_size \<and>
      generate_pdf w config =
        \<lparr>out_result = JObj
           [(''success'', JBool True),
            (''output_path'', output_path),
            (''file_size'', JNum (of_nat file_size)),
            (''page_count'', JNum (of_nat (n + (if truthy cover_image then 1 else 0))))],
         out_stderr = tr @ [PDFGenerated output_path file_size],
         out_saved = Some c\<rparr>)
   \<or> (\<exists>tr saved e. generate_pdf w config = on_exception w tr saved e)"
proof (cases "read_config config")
  case (Inl e)
  then show ?thesis by (auto simp: generate_pdf_def)
next
  case (Inr t)
  then obtain output_path pdf_format cover_image pages pw ph where
    rc: "read_config config = Inr (output_path, pdf_format, cover_image, pages, pw, ph)"
    by (cases t) auto
  show ?thesis
  proof (cases "py_len pages")
    case (Inl e)
    with rc show ?thesis by (auto simp: generate_pdf_def)
  next
    case n: (Inr n)
    obtain tr1 c1 where cov: "add_cover w pw ph cover_image
         [GeneratingPDF output_path, FormatLine pdf_format (pw / 72) (ph / 72), PagesLine n]
         (Canvas output_path (pw, ph)) = (tr1, c1)"
      by (cases "add_cover w pw ph cover_image
         [GeneratingPDF output_path, FormatLine pdf_format (pw / 72) (ph / 72), PagesLine n]
         (Canvas output_path (pw, ph))")
    show ?thesis
    proof (cases "py_iter pages")
      case (Inl e)
      with rc n cov show ?thesis by (auto simp: generate_pdf_def)
    next
      case it: (Inr entries)
      obtain tr c x where lp: "add_story_pages w pw ph n 0 entries tr1 c1 = (tr, c, x)"
        by (cases "add_story_pages w pw ph n 0 entries tr1 c1")
      show ?thesis
      proof (cases x)
        case (Some e)
        with rc n cov it lp show ?thesis by (auto simp: generate_pdf_def)
      next
        case None
        show ?thesis
        proof (cases "canvas_save w c")
          case (Some e)
          with rc n cov it lp None show ?thesis
            by (auto simp: generate_pdf_def save_and_report_def)
        next
          case sv: None
          show ?thesis
          proof (cases "os_path_getsize w output_path")
            case (Inl e)
            with rc n cov it lp None sv show ?thesis
              by (auto simp: generate_pdf_def save_and_report_def)
          next
            case (Inr file_size)
            with rc n cov it lp None sv show ?thesis
              by (simp add: generate_pdf_def save_and_report_def)
          qed
        qed
      qed
    qed
  qed
qed



lemma load_image_unavailable:
  assumes "startswith p ''/objects/'' \<or> startswith p ''objects/'' \<or> \<not> os_path_exists w p"
  shows "\<exists>m. load_image_from_path w (JStr p) = ([m], None) \<and>
              (m = SkippingObjectStorage p \<or> m = ImageNotFound p)"
  using assms by (auto simp: load_image_from_path_def)

lemma generate_pdf_saved:
  assumes "out_saved (generate_pdf w config) = Some c"
  shows "\<exists>output_path pdf_format cover_image pages pw ph n entries tr0 tr1 c1 tr.
      read_config config = Inr (output_path, pdf_format, cover_image, pages, pw, ph) \<and>
      py_len pages = Inr n \<and> py_iter pages = Inr entries \<and>
      add_cover w pw ph cover_image tr0 (Canvas output_path (pw, ph)) = (tr1, c1) \<and>
      add_story_pages w pw ph n 0 entries tr1 c1 = (tr, c, None)"
proof (cases "read_config config")
  case (Inl e)
  with assms show ?thesis by (simp add: generate_pdf_def on_exception_def)
next
  case (Inr t)
  then obtain output_path pdf_format cover_image pages pw ph where
    rc: "read_config config = Inr (output_path, pdf_format, cover_image, pages, pw, ph)"
    by (cases t) auto
  show ?thesis
  proof (cases "py_len pages")
    case (Inl e)
    with rc assms show ?thesis by (simp add: generate_pdf_def on_exception_def)
  next
    case n: (Inr n)
    define tr0 where "tr0 =
      [GeneratingPDF output_path, FormatLine pdf_format (pw / 72) (ph / 72), PagesLine n]"
    obtain tr1 c1 where cov:
      "add_cover w pw ph cover_image tr0 (Canvas output_path (pw, ph)) = (tr1, c1)"
      by (cases "add_cover w pw ph cover_image tr0 (Canvas output_path (pw, ph))")
    show ?thesis
    proof (cases "py_iter pages")
      case (Inl e)
      with rc n cov assms show ?thesis
        by (simp add: generate_pdf_def on_exception_def tr0_def)
    next
      case it: (Inr entries)
      obtain tr c2 x where lp: "add_story_pages w pw ph n 0 entries tr1 c1 = (tr, c2, x)"
        by (cases "add_story_pages w pw ph n 0 entries tr1 c1")
      show ?thesis
      proof (cases x)
        case (Some e)
        with rc n cov it lp assms show ?thesis
          by (simp add: generate_pdf_def on_exception_def tr0_def)
      next
        case None
        with rc n cov it lp assms have "c2 = c"
          by (auto simp: generate_pdf_def save_and_report_def on_exception_def tr0_def
                   split: option.splits sum.splits)
        with rc n cov it lp None show ?thesis by blast
      qed
    qed
  qed
qed

lemma demo_small_run:
  "generate_pdf demo_world demo_small_config =
   \<lparr>out_result = JObj [(''success'', JBool True), (''output_path'', JStr ''out.pdf''),
                       (''file_size'', JNum 1234), (''page_count'', JNum 1)],
    out_stderr = [GeneratingPDF (JStr ''out.pdf''), FormatLine (JStr ''8x8'') 8 8, PagesLine 1,
                  AddingPage 1 1 (JStr ''missing.png''), ImageNotFound ''missing.png'',
                  PDFGenerated (JStr ''out.pdf'') 1234],
    out_saved = Some \<lparr>cv_filename = JStr ''out.pdf'', cv_pagesize = (576, 576),
                      cv_current = [], cv_pages = []\<rparr>\<rparr>"
  by (simp add: demo_small_config_def generate_pdf_def read_config_def demo_world_def save_and_report_def
        add_cover_def load_image_from_path_def startswith_def Canvas_def PDF_FORMATS_def)

lemma demo_run:
  "generate_pdf demo_world demo_config =
   \<lparr>out_result =
      JObj [(''success'', JBool True), (''output_path'', JStr ''out.pdf''),
            (''file_size'', JNum 1234), (''page_count'', JNum 7)],
    out_stderr =
      [GeneratingPDF (JStr ''out.pdf''), FormatLine (JStr ''6x9'') 6 9,
       PagesLine 6, AddingCover (JStr ''cover.png''), CoverAdded,
       AddingPage 1 6 (JStr ''p1.png''), PageAdded 1,
       AddingPage 2 6 (JStr ''/objects/a.png''),
       SkippingObjectStorage ''/objects/a.png'', SkippingPage 3,
       AddingPage 4 6 (JStr ''missing.png''), ImageNotFound ''missing.png'',
       AddingPage 5 6 (JStr ''zero.png''),
       ErrorAddingImage ZeroDivisionError, PageAdded 5,
       AddingPage 6 6 (JStr ''bad.png''),
       ErrorLoadingImage (JStr ''bad.png'') (LibraryError ''cannot identify image file''),
       PDFGenerated (JStr ''out.pdf'') 1234],
    out_saved =
      Some \<lparr>cv_filename = JStr ''out.pdf'', cv_pagesize = (432, 648), cv_current = [],
            cv_pages =
              [[\<lparr>op_image = ImageReader \<lparr>im_source = ''cover.png'', im_mode = ''RGB'',
                                           im_size = (800, 600)\<rparr>,
                 op_x = - 216, op_y = 0, op_width = 864, op_height = 648\<rparr>],
               [\<lparr>op_image = ImageReader \<lparr>im_source = ''p1.png'', im_mode = ''RGB'',
                                           im_size = (200, 100)\<rparr>,
                 op_x = - 432, op_y = 0, op_width = 1296, op_height = 648\<rparr>],
               []]\<rparr>\<rparr>"
  by (simp add: generate_pdf_def read_config_def demo_config_def demo_world_def
        save_and_report_def add_cover_def load_image_from_path_def add_image_to_page_def
        add_image_try_def truediv_def startswith_def Canvas_def showPage_def PDF_FORMATS_def
        Let_def)

section \<open>Full-bleed placement\<close>





section \<open>Page size lookup\<close>

lemma PDF_FORMATS_distinct: "distinct (map fst PDF_FORMATS)"
  by (simp add: PDF_FORMATS_def)

text \<open>
  C3. Every format name of the table is mapped to its width and height in inches
  times 72, and every name that is not in the table to the 8x8 default, 576 by 576
  points.
\<close>

theorem get_page_size_table:
  "((format_name, (width_in, height_in)) \<in> set PDF_FORMATS \<longrightarrow>
      get_page_size (JStr format_name) = Inr (width_in * 72, height_in * 72)) \<and>
   (format_name \<notin> fst ` set PDF_FORMATS \<longrightarrow>
      get_page_size (JStr format_name) = Inr (576, 576))"
proof (intro conjI impI)
  assume "(format_name, (width_in, height_in)) \<in> set PDF_FORMATS"
  then have "map_of PDF_FORMATS format_name = Some (width_in, height_in)"
    using PDF_FORMATS_distinct by (simp add: map_of_is_SomeI)
  then show "get_page_size (JStr format_name) = Inr (width_in * 72, height_in * 72)"
    by simp
next
  assume "format_name \<notin> fst ` set PDF_FORMATS"
  then have "map_of PDF_FORMATS format_name = None"
    by (simp add: map_of_eq_None_iff)
  then show "get_page_size (JStr format_name) = Inr (576, 576)"
    by simp
qed

theorem get_page_size_table_witness:
  "(''6x9'', (6, 9)) \<in> set PDF_FORMATS \<and>
   get_page_size (JStr ''6x9'') = Inr (432, 648) \<and>
   ''9x9'' \<notin> fst ` set PDF_FORMATS \<and>
   get_page_size (JStr ''9x9'') = Inr (576, 576)"
proof -
  have a: "(''6x9'', (6, 9)) \<in> set PDF_FORMATS"
    by (simp add: PDF_FORMATS_def)
  have b: "''9x9'' \<notin> fst ` set PDF_FORMATS"
    by (simp add: PDF_FORMATS_def)
  show ?thesis
    using a b get_page_size_table [of "''6x9''" 6 9] get_page_size_table [of "''9x9''" 0 0]
    by simp
qed

section \<open>Skipped images\<close>

text \<open>
  C4. For a path that starts with \<open>/objects/\<close> or \<open>objects/\<close>, or that does not
  exist, \<open>load_image_from_path\<close> returns \<open>None\<close> and logs one line; the loop over
  the story pages then goes on with the remaining entries on the unchanged canvas, and
  so does the cover step.
\<close>

theorem unavailable_image_is_skipped:
  assumes "startswith p ''/objects/'' \<or> startswith p ''objects/'' \<or> \<not> os_path_exists w p"
  shows "(\<exists>m. load_image_from_path w (JStr p) = ([m], None) \<and>
              (m = SkippingObjectStorage p \<or> m = ImageNotFound p)) \<and>
         (py_get page ''image_path'' JNull = Inr (JStr p) \<longrightarrow>
            (\<exists>ms. add_story_pages w page_width page_height n i (page # rest) tr c =
                   add_story_pages w page_width page_height n (i + 1) rest (tr @ ms) c)) \<and>
         (\<exists>ms. add_cover w page_width page_height (JStr p) tr c = (tr @ ms, c))"
proof -
  from load_image_unavailable [OF assms] obtain m where
    m: "load_image_from_path w (JStr p) = ([m], None)"
      "m = SkippingObjectStorage p \<or> m = ImageNotFound p"
    by blast
  have "\<exists>ms. add_story_pages w page_width page_height n i (page # rest) tr c =
              add_story_pages w page_width page_height n (i + 1) rest (tr @ ms) c"
    if "py_get page ''image_path'' JNull = Inr (JStr p)"
  proof (cases "p = []")
    case True
    with that have "add_story_pages w page_width page_height n i (page # rest) tr c =
        add_story_pages w page_width page_height n (i + 1) rest (tr @ [SkippingPage (i + 1)]) c"
      by simp
    then show ?thesis by blast
  next
    case False
    with that m(1) have "add_story_pages w page_width page_height n i (page # rest) tr c =
        add_story_pages w page_width page_height n (i + 1) rest
          (tr @ [AddingPage (i + 1) n (JStr p), m]) c"
      by simp
    then show ?thesis by blast
  qed
  moreover have "\<exists>ms. add_cover w page_width page_height (JStr p) tr c = (tr @ ms, c)"
  proof (cases "p = []")
    case True
    then have "add_cover w page_width page_height (JStr p) tr c = (tr @ [], c)"
      by (simp add: add_cover_def)
    then show ?thesis by blast
  next
    case False
    with m(1) have "add_cover w page_width page_height (JStr p) tr c =
        (tr @ [AddingCover (JStr p), m], c)"
      by (simp add: add_cover_def)
    then show ?thesis by blast
  qed
  ultimately show ?thesis using m by blast
qed

theorem unavailable_image_is_skipped_witness:
  "(startswith ''/objects/a.png'' ''/objects/'' \<or> startswith ''/objects/a.png'' ''objects/'' \<or>
      \<not> os_path_exists demo_world ''/objects/a.png'') \<and>
   load_image_from_path demo_world (JStr ''/objects/a.png'') =
      ([SkippingObjectStorage ''/objects/a.png''], None) \<and>
   py_get (JObj [(''image_path'', JStr ''/objects/a.png'')]) ''image_path'' JNull =
      Inr (JStr ''/objects/a.png'') \<and>
   (\<exists>ms. add_story_pages demo_world 432 648 2 0
            [JObj [(''image_path'', JStr ''/objects/a.png'')], JObj [(''image_path'', JStr ''p1.png'')]]
            [] (Canvas (JStr ''out.pdf'') (432, 648)) =
          add_story_pages demo_world 432 648 2 1 [JObj [(''image_path'', JStr ''p1.png'')]]
            ([] @ ms) (Canvas (JStr ''out.pdf'') (432, 648)))"
proof -
  have h: "startswith ''/objects/a.png'' ''/objects/'' \<or> startswith ''/objects/a.png'' ''objects/'' \<or>
      \<not> os_path_exists demo_world ''/objects/a.png''"
    by (simp add: startswith_def)
  have g: "py_get (JObj [(''image_path'', JStr ''/objects/a.png'')]) ''image_path'' JNull =
      Inr (JStr ''/objects/a.png'')"
    by simp
  have l: "load_image_from_path demo_world (JStr ''/objects/a.png'') =
      ([SkippingObjectStorage ''/objects/a.png''], None)"
    by (simp add: load_image_from_path_def startswith_def)
  show ?thesis
    using h g l
      unavailable_image_is_skipped [OF h,
        where page = "JObj [(''image_path'', JStr ''/objects/a.png'')]"
          and page_width = 432 and page_height = 648 and n = 2 and i = 0
          and rest = "[JObj [(''image_path'', JStr ''p1.png'')]]" and tr = "[]"
          and c = "Canvas (JStr ''out.pdf'') (432, 648)"]
    by simp
qed

section \<open>The result of a run\<close>



text \<open>
  C6. The exit status follows the \<open>success\<close> entry of the returned dict, which is always
  a boolean: 0 when it is true, 1 when it is false.
\<close>

theorem exit_status_reflects_success:
  "fst (main w config) = out_result (generate_pdf w config) \<and>
   (\<exists>b. subscript (out_result (generate_pdf w config)) ''success'' = Inr (JBool b) \<and>
        snd (main w config) = (if b then 0 else 1))"
  using generate_pdf_cases [of config w]
proof (elim disjE exE conjE)
  fix output_path pdf_format cover_image pages pw ph n entries tr1 c1 tr c file_size
  assume "generate_pdf w config =
        \<lparr>out_result = JObj
           [(''success'', JBool True),
            (''output_path'', output_path),
            (''file_size'', JNum (of_nat file_size)),
            (''page_count'', JNum (of_nat (n + (if truthy cover_image then 1 else 0))))],
         out_stderr = tr @ [PDFGenerated output_path file_size],
         out_saved = Some c\<rparr>"
  then show ?thesis
    by (intro conjI exI [of _ True]) (simp_all add: main_def)
next
  fix tr saved e
  assume "generate_pdf w config = on_exception w tr saved e"
  then show ?thesis
    by (intro conjI exI [of _ False]) (simp_all add: main_def on_exception_def)
qed

theorem exit_status_reflects_success_witness:
  "snd (main demo_world demo_config) = 0 \<and> snd (main demo_world (JObj [])) = 1 \<and>
   subscript (out_result (generate_pdf demo_world demo_config)) ''success'' = Inr (JBool True) \<and>
   subscript (out_result (generate_pdf demo_world (JObj []))) ''success'' = Inr (JBool False)"
proof -
  have a: "out_result (generate_pdf demo_world (JObj [])) =
     JObj [(''success'', JBool False),
           (''error'', JStr (exn_message demo_world (KeyError ''output_path'')))]"
    by (simp add: generate_pdf_def read_config_def on_exception_def)
  have b: "out_result (generate_pdf demo_world demo_config) =
     JObj [(''success'', JBool True), (''output_path'', JStr ''out.pdf''),
           (''file_size'', JNum 1234), (''page_count'', JNum 7)]"
    by (simp add: demo_run)
  have "snd (main demo_world demo_config) = 0"
    using exit_status_reflects_success [of demo_world demo_config] by (auto simp: b)
  moreover have "snd (main demo_world (JObj [])) = 1"
    using exit_status_reflects_success [of demo_world "JObj []"] by (auto simp: a)
  ultimately show ?thesis by (simp add: a b)
qed

section \<open>Order and number of pages\<close>

text \<open>
  C7. The pages of the saved document are the pages the specification describes: the
  cover's page first, when a cover is configured and loads, then the pages of the story
  entries in the order of the list.
\<close>

theorem pages_in_input_order:
  assumes "read_config config = Inr (output_path, pdf_format, cover_image, pages, page_width, page_height)"
    and "py_iter pages = Inr entries"
    and "out_saved (generate_pdf w config) = Some c"
  shows "cv_pages c = spec_document w page_width page_height cover_image entries \<and>
         cv_current c = [] \<and>
         (truthy cover_image \<longrightarrow>
            (\<forall>r. snd (load_image_from_path w cover_image) = Some r \<longrightarrow>
               cv_pages c = drawn_page w page_width page_height r
                 # concat (map (entry_pages w page_width page_height) entries)))"
proof -
  from generate_pdf_saved [OF assms(3)] assms(1,2) obtain n tr0 tr1 c1 tr where
    cov: "add_cover w page_width page_height cover_image tr0
            (Canvas output_path (page_width, page_height)) = (tr1, c1)" and
    lp: "add_story_pages w page_width page_height n 0 entries tr1 c1 = (tr, c, None)"
    by auto
  have e: "cv_current (Canvas output_path (page_width, page_height)) = []"
    "cv_pages (Canvas output_path (page_width, page_height)) = []"
    by (simp_all add: Canvas_def)
  from add_cover_effect [OF e(1), of w page_width page_height cover_image tr0] cov e(2)
  have c1: "cv_pages c1 =
      (if truthy cover_image then image_pages w page_width page_height cover_image else [])"
    "cv_current c1 = []"
    by simp_all
  from add_story_pages_effect [OF lp c1(2)] c1(1) have
    "cv_pages c = spec_document w page_width page_height cover_image entries"
    "cv_current c = []"
    by (simp_all add: spec_document_def)
  then show ?thesis
    by (simp add: spec_document_def image_pages_def)
qed

theorem pages_in_input_order_witness:
  "read_config demo_config =
     Inr (JStr ''out.pdf'', JStr ''6x9'', JStr ''cover.png'', JArr demo_pages, 432, 648) \<and>
   py_iter (JArr demo_pages) = Inr demo_pages \<and>
   out_saved (generate_pdf demo_world demo_config) =
     Some \<lparr>cv_filename = JStr ''out.pdf'', cv_pagesize = (432, 648), cv_current = [],
           cv_pages = demo_document\<rparr> \<and>
   demo_document = spec_document demo_world 432 648 (JStr ''cover.png'') demo_pages \<and>
   map (map (\<lambda>call. case op_image call of ImageReader img \<Rightarrow> im_source img)) demo_document =
     [[''cover.png''], [''p1.png''], []]"
proof -
  have rc: "read_config demo_config =
     Inr (JStr ''out.pdf'', JStr ''6x9'', JStr ''cover.png'', JArr demo_pages, 432, 648)"
    by (simp add: read_config_def demo_config_def demo_pages_def PDF_FORMATS_def)
  have it: "py_iter (JArr demo_pages) = Inr demo_pages"
    by simp
  have sv: "out_saved (generate_pdf demo_world demo_config) =
     Some \<lparr>cv_filename = JStr ''out.pdf'', cv_pagesize = (432, 648), cv_current = [],
           cv_pages = demo_document\<rparr>"
    by (simp only: demo_run demo_document_def outcome.select_convs)
  from pages_in_input_order [OF rc it sv, THEN conjunct1] have
    "demo_document = spec_document demo_world 432 648 (JStr ''cover.png'') demo_pages"
    by (simp only: canvas.select_convs)
  moreover have
    "map (map (\<lambda>call. case op_image call of ImageReader img \<Rightarrow> im_source img)) demo_document =
       [[''cover.png''], [''p1.png''], []]"
    by (simp add: demo_document_def)
  ultimately show ?thesis using rc it sv by (intro conjI)
qed

text \<open>
  C8. On success the reported page count is the length of the pages list plus one when
  a cover image is configured; skipped entries are counted too, so the count can be
  larger than the number of pages in the document.
\<close>

theorem page_count_counts_entries:
  "(subscript (out_result (generate_pdf w config)) ''success'' = Inr (JBool True) \<longrightarrow>
      (\<exists>cover_image pages n.
         py_get config ''cover_image'' JNull = Inr cover_image \<and>
         py_get config ''pages'' (JArr []) = Inr pages \<and>
         py_len pages = Inr n \<and>
         subscript (out_result (generate_pdf w config)) ''page_count'' =
           Inr (JNum (of_nat (n + (if truthy cover_image then 1 else 0)))))) \<and>
   (\<exists>w' config' c.
      subscript (out_result (generate_pdf w' config')) ''success'' = Inr (JBool True) \<and>
      out_saved (generate_pdf w' config') = Some c \<and>
      subscript (out_result (generate_pdf w' config')) ''page_count'' = Inr (JNum 1) \<and>
      length (cv_pages c) = 0)"
proof (intro conjI impI)
  assume ok: "subscript (out_result (generate_pdf w config)) ''success'' = Inr (JBool True)"
  from generate_pdf_cases [of config w]
  show "\<exists>cover_image pages n.
         py_get config ''cover_image'' JNull = Inr cover_image \<and>
         py_get config ''pages'' (JArr []) = Inr pages \<and>
         py_len pages = Inr n \<and>
         subscript (out_result (generate_pdf w config)) ''page_count'' =
           Inr (JNum (of_nat (n + (if truthy cover_image then 1 else 0))))"
  proof (elim disjE exE conjE)
    fix output_path pdf_format cover_image pages pw ph n entries tr1 c1 tr c file_size
    assume rc: "read_config config = Inr (output_path, pdf_format, cover_image, pages, pw, ph)"
      and n: "py_len pages = Inr n"
      and g: "generate_pdf w config =
        \<lparr>out_result = JObj
           [(''success'', JBool True),
            (''output_path'', output_path),
            (''file_size'', JNum (of_nat file_size)),
            (''page_count'', JNum (of_nat (n + (if truthy cover_image then 1 else 0))))],
         out_stderr = tr @ [PDFGenerated output_path file_size],
         out_saved = Some c\<rparr>"
    have "subscript (out_result (generate_pdf w config)) ''page_count'' =
           Inr (JNum (of_nat (n + (if truthy cover_image then 1 else 0))))"
      unfolding g by simp
    with read_config_Inr [OF rc] n show ?thesis by blast
  next
    fix tr saved e
    assume "generate_pdf w config = on_exception w tr saved e"
    with ok show ?thesis by (simp add: on_exception_def)
  qed
next
  show "\<exists>w' config' c.
      subscript (out_result (generate_pdf w' config')) ''success'' = Inr (JBool True) \<and>
      out_saved (generate_pdf w' config') = Some c \<and>
      subscript (out_result (generate_pdf w' config')) ''page_count'' = Inr (JNum 1) \<and>
      length (cv_pages c) = 0"
    by (rule exI [of _ demo_world], rule exI [of _ demo_small_config])
       (simp add: demo_small_run)
qed

theorem page_count_counts_entries_witness:
  "subscript (out_result (generate_pdf demo_world demo_config)) ''success'' = Inr (JBool True) \<and>
   py_get demo_config ''cover_image'' JNull = Inr (JStr ''cover.png'') \<and>
   py_get demo_config ''pages'' (JArr []) = Inr (JArr demo_pages) \<and>
   py_len (JArr demo_pages) = Inr 6 \<and>
   subscript (out_result (generate_pdf demo_world demo_config)) ''page_count'' = Inr (JNum 7) \<and>
   (\<exists>c. out_saved (generate_pdf demo_world demo_config) = Some c \<and> length (cv_pages c) = 3)"
proof -
  have ok: "subscript (out_result (generate_pdf demo_world demo_config)) ''success'' =
      Inr (JBool True)"
    by (simp add: demo_run)
  have a: "py_get demo_config ''cover_image'' JNull = Inr (JStr ''cover.png'')"
    "py_get demo_config ''pages'' (JArr []) = Inr (JArr demo_pages)"
    "py_len (JArr demo_pages) = Inr 6"
    by (simp_all add: demo_config_def demo_pages_def)
  from page_count_counts_entries [of demo_world demo_config] ok a
  have "subscript (out_result (generate_pdf demo_world demo_config)) ''page_count'' =
      Inr (JNum 7)"
    by auto
  moreover have "\<exists>c. out_saved (generate_pdf demo_world demo_config) = Some c \<and>
      length (cv_pages c) = 3"
    by (simp add: demo_run)
  ultimately show ?thesis using ok a by (intro conjI)
qed

section \<open>Errors that stay inside\<close>

text \<open>
  C9. An exception in the body of \<open>load_image_from_path\<close> gives \<open>None\<close> and a log
  line; an exception in the body of \<open>add_image_to_page\<close>, a zero width or height
  among them, draws nothing and gives a log line; whatever happens to the image of a
  page entry, the loop goes on with the remaining entries.
\<close>

theorem image_errors_are_contained:
  "(load_image_try w image_path = Inl e \<longrightarrow>
      load_image_from_path w image_path = ([ErrorLoadingImage image_path e], None)) \<and>
   (add_image_try w c r page_width page_height = Inl e \<longrightarrow>
      add_image_to_page w c (Some r) page_width page_height = ([ErrorAddingImage e], c)) \<and>
   (fst (getSize r) = 0 \<or> snd (getSize r) = 0 \<longrightarrow>
      add_image_to_page w c (Some r) page_width page_height =
        ([ErrorAddingImage ZeroDivisionError], c)) \<and>
   (py_get page ''image_path'' JNull = Inr v \<longrightarrow>
      (\<exists>tr' c'. add_story_pages w page_width page_height n i (page # rest) tr c =
                 add_story_pages w page_width page_height n (i + 1) rest tr' c' \<and>
                 (c' = c \<or> (\<exists>ops. c' = showPage (c\<lparr>cv_current := cv_current c @ ops\<rparr>)))))"
proof (intro conjI impI)
  assume "load_image_try w image_path = Inl e"
  then show "load_image_from_path w image_path = ([ErrorLoadingImage image_path e], None)"
    by (simp add: load_image_from_path_def)
next
  assume "add_image_try w c r page_width page_height = Inl e"
  then show "add_image_to_page w c (Some r) page_width page_height = ([ErrorAddingImage e], c)"
    by (simp add: add_image_to_page_def)
next
  assume "fst (getSize r) = 0 \<or> snd (getSize r) = 0"
  then have "add_image_try w c r page_width page_height = Inl ZeroDivisionError"
    by (rule add_image_try_zero)
  then show "add_image_to_page w c (Some r) page_width page_height =
        ([ErrorAddingImage ZeroDivisionError], c)"
    by (simp add: add_image_to_page_def)
next
  assume g: "py_get page ''image_path'' JNull = Inr v"
  show "\<exists>tr' c'. add_story_pages w page_width page_height n i (page # rest) tr c =
                 add_story_pages w page_width page_height n (i + 1) rest tr' c' \<and>
                 (c' = c \<or> (\<exists>ops. c' = showPage (c\<lparr>cv_current := cv_current c @ ops\<rparr>)))"
  proof (cases "truthy v")
    case False
    with g show ?thesis by auto
  next
    case True
    obtain l1 rd where ld: "load_image_from_path w v = (l1, rd)"
      by (cases "load_image_from_path w v")
    show ?thesis
    proof (cases rd)
      case None
      with g True ld show ?thesis by auto
    next
      case (Some r')
      obtain l2 c2 where ad: "add_image_to_page w c (Some r') page_width page_height = (l2, c2)"
        by (cases "add_image_to_page w c (Some r') page_width page_height")
      have "c2 = c\<lparr>cv_current := cv_current c @ drawn_page w page_width page_height r'\<rparr>"
        using add_image_to_page_effect [of w c r' page_width page_height] ad by simp
      with g True ld Some ad show ?thesis by auto
    qed
  qed
qed

theorem image_errors_are_contained_witness:
  "load_image_try demo_world (JStr ''bad.png'') = Inl (LibraryError ''cannot identify image file'') \<and>
   load_image_from_path demo_world (JStr ''bad.png'') =
     ([ErrorLoadingImage (JStr ''bad.png'') (LibraryError ''cannot identify image file'')], None) \<and>
   (fst (getSize demo_zero_reader) = 0 \<or> snd (getSize demo_zero_reader) = 0) \<and>
   add_image_try demo_world (Canvas (JStr ''out.pdf'') (432, 648)) demo_zero_reader 432 648 =
     Inl ZeroDivisionError \<and>
   add_image_to_page demo_world (Canvas (JStr ''out.pdf'') (432, 648)) (Some demo_zero_reader)
       432 648 =
     ([ErrorAddingImage ZeroDivisionError], Canvas (JStr ''out.pdf'') (432, 648)) \<and>
   py_get (JObj [(''image_path'', JStr ''zero.png'')]) ''image_path'' JNull =
     Inr (JStr ''zero.png'') \<and>
   (\<exists>tr' c'. add_story_pages demo_world 432 648 2 0
               [JObj [(''image_path'', JStr ''zero.png'')], JObj [(''image_path'', JStr ''p1.png'')]]
               [] (Canvas (JStr ''out.pdf'') (432, 648)) =
             add_story_pages demo_world 432 648 2 1 [JObj [(''image_path'', JStr ''p1.png'')]]
               tr' c')"
proof -
  have a: "load_image_try demo_world (JStr ''bad.png'') =
      Inl (LibraryError ''cannot identify image file'')"
    by (simp add: demo_world_def startswith_def)
  have b: "fst (getSize demo_zero_reader) = 0 \<or> snd (getSize demo_zero_reader) = 0"
    by (simp add: demo_zero_reader_def)
  have c: "add_image_try demo_world (Canvas (JStr ''out.pdf'') (432, 648)) demo_zero_reader
      432 648 = Inl ZeroDivisionError"
    by (simp add: add_image_try_def demo_zero_reader_def truediv_def)
  have d: "py_get (JObj [(''image_path'', JStr ''zero.png'')]) ''image_path'' JNull =
     Inr (JStr ''zero.png'')"
    by simp
  note t = image_errors_are_contained [where w = demo_world and image_path = "JStr ''bad.png''"
      and e = "LibraryError ''cannot identify image file''"
      and r = demo_zero_reader and c = "Canvas (JStr ''out.pdf'') (432, 648)"
      and page_width = 432 and page_height = 648
      and page = "JObj [(''image_path'', JStr ''zero.png'')]" and v = "JStr ''zero.png''"
      and n = 2 and i = 0 and rest = "[JObj [(''image_path'', JStr ''p1.png'')]]" and tr = "[]"]
  from t a have "load_image_from_path demo_world (JStr ''bad.png'') =
     ([ErrorLoadingImage (JStr ''bad.png'') (LibraryError ''cannot identify image file'')], None)"
    by blast
  moreover from t b have
    "add_image_to_page demo_world (Canvas (JStr ''out.pdf'') (432, 648)) (Some demo_zero_reader)
       432 648 =
     ([ErrorAddingImage ZeroDivisionError], Canvas (JStr ''out.pdf'') (432, 648))"
    by blast
  moreover from t d have "\<exists>tr' c'. add_story_pages demo_world 432 648 2 0
               [JObj [(''image_path'', JStr ''zero.png'')], JObj [(''image_path'', JStr ''p1.png'')]]
               [] (Canvas (JStr ''out.pdf'') (432, 648)) =
             add_story_pages demo_world 432 648 2 (0 + 1) [JObj [(''image_path'', JStr ''p1.png'')]]
               tr' c'"
    by blast
  ultimately show ?thesis using a b c d by simp
qed

section \<open>Defaults for missing keys\<close>



end
